theory Spec2Isabelle
  imports Complex_Main
begin

section \<open>Convection stabilization: \<open>maelstrom/stabilization.py\<close>\<close>

text \<open>
  The two functions \<open>supg\<close> and \<open>supg2\<close> each carry a C++ class \<open>SupgStab\<close> whose
  method \<open>eval\<close> computes the stabilization parameter at one evaluation point of one
  cell.  The C++ \<open>double\<close> is modelled as \<open>real\<close>: arithmetic is exact, rounding is not
  modelled, except where the two branches of the Peclet function are compared at their
  crossover: there the values that a \<open>double\<close> can take are part of the statement.

  A quotient whose divisor is zero has no real value: the double is a NaN when the
  dividend is zero as well and an infinity otherwise.  In \<open>supg\<close> the model follows the
  quotient by a zero \<open>sum\<close> into the \<open>assert\<close> on \<open>h\<close> that comes next.  Every other
  quotient by zero ends the modelled evaluation with the outcome \<open>NonFinite\<close>: the
  evaluation goes on with a value that is no number of the model, and the model does not
  say how it ends.

  The \<open>assert\<close>s of the source are modelled as enabled: a failing one ends the evaluation
  with \<open>Aborted\<close>.  The convection sample has two components, as the mesh is one of
  triangles in the plane, so that \<open>assert(b_tau.size() == x.size())\<close> holds;
  \<open>assert(vertices)\<close> holds as the cell has vertices.
\<close>

type_synonym point = "real \<times> real"

text \<open>
  What \<open>eval\<close> asks of the mesh about the cell with index \<open>c.index\<close>:
  the coordinates of its vertices by local index (the \<open>point()\<close> of the vertex \<open>vertices[i]\<close>),
  \<open>cell.volume()\<close> and \<open>cell.diameter()\<close>.
\<close>

record cell =
  vertex :: "nat \<Rightarrow> point"
  volume :: real
  diameter :: real

text \<open>The members \<open>sigma\<close> and \<open>p\<close> of the class \<open>SupgStab\<close>.\<close>

record SupgStab =
  sigma :: real
  p :: int

datatype abort = DiameterAssert | PecletAssert | TauThrow

datatype 'a outcome = Returned (the_value: 'a) | Aborted abort | NonFinite

text \<open>\<open>conv_norm\<close>: the loop \<open>conv_norm += b_tau[i]*b_tau[i]\<close> from 0, then \<open>sqrt\<close>.\<close>

definition conv_norm :: "real \<times> real \<Rightarrow> real" where
  "conv_norm b = sqrt (0 + fst b * fst b + snd b * snd b)"

text \<open>The index pairs visited by \<open>for (i=0; i<3; i++) for (j=i+1; j<3; j++)\<close>.\<close>

definition edge_pairs :: "(nat \<times> nat) list" where
  "edge_pairs = concat (map (\<lambda>i. map (\<lambda>j. (i, j)) [i + 1 ..< 3]) [0 ..< 3])"

text \<open>One pass of the loop body: \<open>sum += fabs(e1*b[0] - e0*b[1])\<close>.\<close>

definition edge_term :: "cell \<Rightarrow> real \<times> real \<Rightarrow> nat \<times> nat \<Rightarrow> real" where
  "edge_term c b ij =
     (let p0 = vertex c (fst ij); p1 = vertex c (snd ij);
          e0 = fst p0 - fst p1;
          e1 = snd p0 - snd p1
      in \<bar>e1 * fst b - e0 * snd b\<bar>)"

definition edge_sum :: "cell \<Rightarrow> real \<times> real \<Rightarrow> real" where
  "edge_sum c b = fold (\<lambda>ij s. s + edge_term c b ij) edge_pairs 0"

text \<open>\<open>h = 4 * conv_norm * area / sum\<close>, the directed diameter.\<close>

definition supg_h :: "cell \<Rightarrow> real \<times> real \<Rightarrow> real" where
  "supg_h c b = 4 * conv_norm b * volume c / edge_sum c b"

text \<open>\<open>Pe = 0.5*conv_norm * h/(p*sigma)\<close>.\<close>

definition supg_Pe :: "SupgStab \<Rightarrow> cell \<Rightarrow> real \<times> real \<Rightarrow> real" where
  "supg_Pe e c b = 0.5 * conv_norm b * supg_h c b / (of_int (p e) * sigma e)"

text \<open>The conditional expression that defines \<open>xi\<close>.\<close>

definition xi :: "real \<Rightarrow> real" where
  "xi Pe = (if Pe > 1 / 100000
            then 1 / tanh Pe - 1 / Pe
            else Pe / 3 - Pe * Pe * Pe / 45 + 2 / 945 * Pe * Pe * Pe * Pe * Pe)"

text \<open>The two operands of that conditional expression, as functions of their own.\<close>

definition xi_closed :: "real \<Rightarrow> real" where
  "xi_closed Pe = 1 / tanh Pe - 1 / Pe"

definition xi_taylor :: "real \<Rightarrow> real" where
  "xi_taylor Pe = Pe / 3 - Pe * Pe * Pe / 45 + 2 / 945 * Pe * Pe * Pe * Pe * Pe"

text \<open>\<open>tau = 0.5*h*xi / (p*conv_norm)\<close>.\<close>

definition supg_tau :: "SupgStab \<Rightarrow> cell \<Rightarrow> real \<times> real \<Rightarrow> real" where
  "supg_tau e c b =
     0.5 * supg_h c b * xi (supg_Pe e c b) / (of_int (p e) * conv_norm b)"

text \<open>
  \<open>SupgStab::eval\<close> of \<open>supg\<close>.  \<open>eps\<close> stands for the constant \<open>DOLFIN_EPS\<close> of the
  dolfin library, \<open>b\<close> for the value that \<open>convection->eval(b_tau, x, c)\<close> writes into
  \<open>b_tau\<close>; the result is the final content of \<open>b_tau\<close>.

  When \<open>sum\<close> is zero, \<open>h = 4 * conv_norm * area / sum\<close> is a NaN for a zero dividend and
  plus infinity for a positive one; \<open>h <= cell.diameter()\<close> is false for both, and the
  \<open>assert\<close> fails.  For a negative dividend (a negative volume) \<open>h\<close> is minus infinity,
  which passes the \<open>assert\<close>; the model follows that evaluation no further.
\<close>

definition supg_eval ::
  "real \<Rightarrow> SupgStab \<Rightarrow> cell \<Rightarrow> real \<times> real \<Rightarrow> (real \<times> real) outcome" where
  "supg_eval eps e c b =
     (if conv_norm b < eps then Returned (0, 0)
      else if edge_sum c b = 0
        then (if 0 \<le> 4 * conv_norm b * volume c then Aborted DiameterAssert else NonFinite)
      else if \<not> supg_h c b \<le> diameter c then Aborted DiameterAssert
      else if of_int (p e) * sigma e = 0 then NonFinite
      else if \<not> supg_Pe e c b > 0 then Aborted PecletAssert
      else if supg_tau e c b > 1000 then Aborted TauThrow
      else Returned
             (fst b * (0.5 * supg_h c b * xi (supg_Pe e c b) / (of_int (p e) * conv_norm b)),
              snd b * (0.5 * supg_h c b * xi (supg_Pe e c b) / (of_int (p e) * conv_norm b))))"

text \<open>
  \<open>SupgStab::eval\<close> of \<open>supg2\<close>; the result is the final \<open>tau[0]\<close>.  The branch for a
  small convection norm stores 0 into \<open>tau[0]\<close> and has no \<open>return\<close>: the store
  is overwritten by the later assignment \<open>tau[0] = 0.5*h*xi / (p*conv_norm)\<close>.
  \<open>tau_in\<close> is the content of \<open>tau[0]\<close> on entry.  The checks on the directed diameter
  and on the size of \<open>tau\<close> are comments in this variant and are not part of it.
\<close>

definition supg2_eval ::
  "real \<Rightarrow> SupgStab \<Rightarrow> cell \<Rightarrow> real \<times> real \<Rightarrow> real \<Rightarrow> real outcome" where
  "supg2_eval eps e c v tau_in =
     (let tau0 = (if conv_norm v < eps then 0 else tau_in)
      in if edge_sum c v = 0 then NonFinite
         else if of_int (p e) * sigma e = 0 then NonFinite
         else if \<not> supg_Pe e c v > 0 then Aborted PecletAssert
         else Returned (0.5 * supg_h c v * xi (supg_Pe e c v) / (of_int (p e) * conv_norm v)))"

text \<open>
  Modelled from the spec: the mesh library's \<open>Cell::volume\<close> and \<open>Cell::diameter\<close>
  are not part of the repository.  For a triangle the spec takes the volume to be the
  unsigned area and the diameter to be the conventional cell diameter, which is never
  smaller than the length of an edge.
\<close>

definition tri_area :: "cell \<Rightarrow> real" where
  "tri_area c =
     \<bar>(fst (vertex c 1) - fst (vertex c 0)) * (snd (vertex c 2) - snd (vertex c 0))
      - (fst (vertex c 2) - fst (vertex c 0)) * (snd (vertex c 1) - snd (vertex c 0))\<bar> / 2"



text \<open>The cell and flow direction of the end-to-end scenario.\<close>

definition unit_triangle :: cell where
  "unit_triangle =
     \<lparr>vertex = (\<lambda>i. [(0, 0), (1, 0), (0, 1)] ! i), volume = 1 / 2, diameter = sqrt 2\<rparr>"


text \<open>
  Concrete inputs for the evaluations below.  \<open>DOLFIN_EPS\<close> is the value that the
  dolfin library gives the constant, \<open>3.0e-16\<close>; the model itself takes the constant
  as the parameter \<open>eps\<close>.  \<open>flat_cell\<close> is a triangle whose three vertices are distinct
  points of one line.
\<close>

definition DOLFIN_EPS :: real where
  "DOLFIN_EPS = 3 / 10 ^ 16"

definition unit_stab :: SupgStab where
  "unit_stab = \<lparr>sigma = 1, p = 1\<rparr>"

definition stiff_stab :: SupgStab where
  "stiff_stab = \<lparr>sigma = 10 ^ 6, p = 1\<rparr>"

definition tiny_flow :: "real \<times> real" where
  "tiny_flow = (1 / 10 ^ 16, 0)"

definition slow_flow :: "real \<times> real" where
  "slow_flow = (1 / 10 ^ 9, 0)"


definition big_triangle :: cell where
  "big_triangle =
     \<lparr>vertex = (\<lambda>i. [(0, 0), (1000, 0), (0, 1000)] ! i), volume = 500000,
      diameter = 1000 * sqrt 2\<rparr>"

text \<open>
  The type \<open>double\<close> of the C++ source is the binary64 format of IEEE 754.  Its finite
  numbers are the products of an integer below \<open>2^53\<close> in modulus and a power of two with
  an exponent from \<open>-1074\<close> to \<open>971\<close>.  \<open>crossover64\<close> is the value of the literal
  \<open>1.0e-5\<close> of the source: the binary64 number nearest to one hundred-thousandth.
\<close>

definition is_binary64 :: "real \<Rightarrow> bool" where
  "is_binary64 x \<longleftrightarrow>
     (\<exists>(m::int) (n::nat). \<bar>m\<bar> < 2 ^ 53
        \<and> (x = of_int m * 2 ^ n \<and> n \<le> 971 \<or> x = of_int m / 2 ^ n \<and> n \<le> 1074))"

definition crossover64 :: real where
  "crossover64 = 5902958103587057 / 2 ^ 69"


section \<open>Fixed-point warm start: \<open>_solve_fixed_point\<close> in \<open>maelstrom/stokes_heat.py\<close>\<close>

text \<open>
  The collaborators of \<open>_solve_fixed_point\<close>: the modules \<open>heat\<close> and \<open>stokes\<close> and
  the finite-element library are not part of the model and enter it as parameters.
  Fields are values of the type variables \<open>'u\<close> (velocity), \<open>'q\<close> (pressure), \<open>'t\<close>
  (temperature), \<open>'r\<close> (a coefficient field) and \<open>'f\<close> (a force field).

  \<^item> \<open>rho\<close>: the argument \<open>rho\<close>, applied as \<open>rho(theta0)\<close>;
  \<^item> \<open>times_g\<close>: the product \<open>... * g\<close>;
  \<^item> \<open>extra_force\<close>, \<open>add_force\<close>: the argument \<open>extra_force\<close> (\<open>None\<close> is falsy) and
    \<open>f += as_vector((extra_force[0], extra_force[1], 0.0))\<close>;
  \<^item> \<open>heat_solve u r\<close>: \<open>heat.Heat(Q, convection=u, ..., rho=r, ...).solve_stationary()\<close>;
  \<^item> \<open>stokes_solve up f\<close>: the content of \<open>up0\<close> after
    \<open>stokes.stokes_solve(up0, mu, u_bcs, p_bcs, f, ...)\<close>, which updates \<open>up0\<close> in place;
  \<^item> \<open>errornorm\<close>: \<open>errornorm(theta0, theta1)\<close>.

  Each of them is a function that returns: an exception raised inside a collaborator is
  not part of the model.  \<open>_solve_fixed_point\<close> itself has no \<open>raise\<close>.  The calls of
  \<open>info\<close> only print.
\<close>

record ('u, 'q, 't, 'r, 'f) problem =
  rho :: "'t \<Rightarrow> 'r"
  times_g :: "'r \<Rightarrow> 'f"
  extra_force :: "'f option"
  add_force :: "'f \<Rightarrow> 'f \<Rightarrow> 'f"
  heat_solve :: "'u \<Rightarrow> 'r \<Rightarrow> 't"
  stokes_solve :: "'u \<times> 'q \<Rightarrow> 'f \<Rightarrow> 'u \<times> 'q"
  errornorm :: "'t \<Rightarrow> 't \<Rightarrow> real"

text \<open>
  The objects the loop mutates.  \<open>u0, p0 = up0.split()\<close> are views of the mixed
  function \<open>up0\<close>, so \<open>u0\<close> is always \<open>fst (s_up0 s)\<close> and \<open>p0\<close> is \<open>snd (s_up0 s)\<close>.
\<close>

record ('u, 'q, 't) fp_state =
  s_up0 :: "'u \<times> 'q"
  s_theta0 :: 't
  s_theta1 :: 't

text \<open>One pass through the body of \<open>while True\<close>, up to the test \<open>diff < tol\<close>.\<close>

definition fp_pass ::
  "('u, 'q, 't, 'r, 'f) problem \<Rightarrow> ('u, 'q, 't) fp_state \<Rightarrow> ('u, 'q, 't) fp_state \<times> real"
  where
  "fp_pass P s =
     (let u0 = fst (s_up0 s);
          s = s\<lparr>s_theta1 := heat_solve P u0 (rho P (s_theta0 s))\<rparr>;
          f = times_g P (rho P (s_theta0 s));
          f = (case extra_force P of None \<Rightarrow> f | Some x \<Rightarrow> add_force P f x);
          s = s\<lparr>s_up0 := stokes_solve P (s_up0 s) f\<rparr>;
          theta_diff = errornorm P (s_theta0 s) (s_theta1 s);
          diff = theta_diff
      in (s, diff))"

text \<open>
  The loop.  It has no bound on the number of passes, so it is a partial function:
  \<open>None\<close> is the run that never leaves the loop.  On \<open>break\<close> the function returns
  \<open>u0, p0, theta0\<close>; otherwise \<open>theta0.assign(theta1)\<close> and the next pass.
\<close>

partial_function (option) fp_loop ::
  "('u, 'q, 't, 'r, 'f) problem \<Rightarrow> real \<Rightarrow> ('u, 'q, 't) fp_state \<Rightarrow> ('u \<times> 'q \<times> 't) option"
  where
  "fp_loop P tol s =
     (let r = fp_pass P s; s = fst r; diff = snd r
      in if diff < tol then Some (fst (s_up0 s), snd (s_up0 s), s_theta0 s)
         else fp_loop P tol (s\<lparr>s_theta0 := s_theta1 s\<rparr>))"

text \<open>
  \<open>_solve_fixed_point\<close>.  \<open>up0 = Function(WP)\<close> and \<open>theta1 = Function(Q)\<close> are new
  functions, whose coefficients are zero; \<open>u0, p0 = up0.split()\<close> rebinds the
  parameters \<open>u0\<close> and \<open>p0\<close>.
\<close>

definition solve_fixed_point ::
  "('u::zero, 'q::zero, 't::zero, 'r, 'f) problem \<Rightarrow> 'u \<Rightarrow> 'q \<Rightarrow> 't \<Rightarrow> real
     \<Rightarrow> ('u \<times> 'q \<times> 't) option" where
  "solve_fixed_point P u0 p0 theta0 tol =
     (let up0 = (0, 0); u0 = fst up0; p0 = snd up0; theta1 = 0
      in fp_loop P tol \<lparr>s_up0 = up0, s_theta0 = theta0, s_theta1 = theta1\<rparr>)"

text \<open>
  The state at the start of pass \<open>n\<close> (counted from 0) of a run in which no earlier
  pass left the loop, and the value of \<open>diff\<close> that pass \<open>n\<close> computes.
\<close>

definition fp_next ::
  "('u, 'q, 't, 'r, 'f) problem \<Rightarrow> ('u, 'q, 't) fp_state \<Rightarrow> ('u, 'q, 't) fp_state" where
  "fp_next P s = (fst (fp_pass P s))\<lparr>s_theta0 := s_theta1 (fst (fp_pass P s))\<rparr>"

definition fp_iter ::
  "('u, 'q, 't, 'r, 'f) problem \<Rightarrow> nat \<Rightarrow> ('u, 'q, 't) fp_state \<Rightarrow> ('u, 'q, 't) fp_state" where
  "fp_iter P n s = (fp_next P ^^ n) s"

definition fp_diff ::
  "('u, 'q, 't, 'r, 'f) problem \<Rightarrow> ('u, 'q, 't) fp_state \<Rightarrow> nat \<Rightarrow> real" where
  "fp_diff P s n = snd (fp_pass P (fp_iter P n s))"

text \<open>
  The state in which \<open>_solve_fixed_point\<close> enters the loop, and what the function
  returns when it leaves the loop in the pass that starts in state \<open>s\<close>.
\<close>

definition fp_start :: "'t \<Rightarrow> ('u::zero, 'q::zero, 't::zero) fp_state" where
  "fp_start theta0 = \<lparr>s_up0 = (0, 0), s_theta0 = theta0, s_theta1 = 0\<rparr>"

definition fp_result ::
  "('u, 'q, 't, 'r, 'f) problem \<Rightarrow> ('u, 'q, 't) fp_state \<Rightarrow> 'u \<times> 'q \<times> 't" where
  "fp_result P s =
     (let s' = fst (fp_pass P s) in (fst (s_up0 s'), snd (s_up0 s'), s_theta0 s'))"

text \<open>
  Two concrete problems over real numbers as fields.  In both the density is the
  temperature itself and the Stokes solve returns the force as the velocity; the
  energy solve adds one to, or halves, the coefficient it is given.
\<close>

definition growing_problem :: "(real, real, real, real, real) problem" where
  "growing_problem =
     \<lparr>rho = (\<lambda>t. t), times_g = (\<lambda>r. r), extra_force = None, add_force = (\<lambda>f x. f + x),
      heat_solve = (\<lambda>u r. r + 1), stokes_solve = (\<lambda>up f. (f, snd up)),
      errornorm = (\<lambda>a b. \<bar>a - b\<bar>)\<rparr>"

definition halving_problem :: "(real, real, real, real, real) problem" where
  "halving_problem =
     \<lparr>rho = (\<lambda>t. t), times_g = (\<lambda>r. r), extra_force = None, add_force = (\<lambda>f x. f + x),
      heat_solve = (\<lambda>u r. r / 2), stokes_solve = (\<lambda>up f. (f, snd up)),
      errornorm = (\<lambda>a b. \<bar>a - b\<bar>)\<rparr>"


section \<open>Facts about the stabilization model\<close>

lemma edge_pairs_eq: "edge_pairs = [(0, 1), (0, 2), (1, 2)]"
  by (simp add: edge_pairs_def upt_rec)

lemma edge_sum_eq:
  "edge_sum c b = edge_term c b (0, 1) + edge_term c b (0, 2) + edge_term c b (1, 2)"
  by (simp add: edge_sum_def edge_pairs_eq)

lemma conv_norm_axis: "0 \<le> x \<Longrightarrow> conv_norm (x, 0) = x"
  by (simp add: conv_norm_def)

lemma unit_triangle_sum: "edge_sum unit_triangle (1, 0) = 2"
  by (simp add: edge_sum_eq edge_term_def unit_triangle_def)

lemma edge_sum_zero_flow: "edge_sum c (0, 0) = 0"
  by (simp add: edge_sum_eq edge_term_def)

lemma edge_sum_nonneg: "0 \<le> edge_sum c b"
  by (simp add: edge_sum_eq edge_term_def Let_def)

lemma conv_norm_nonneg: "0 \<le> conv_norm b"
  by (simp add: conv_norm_def)

subsection \<open>The Peclet function is not negative\<close>

lemma tanh_le_self:
  fixes x :: real
  assumes "0 \<le> x"
  shows "tanh x \<le> x"
proof -
  have "(\<lambda>t::real. t - tanh t) 0 \<le> (\<lambda>t. t - tanh t) x"
  proof (rule DERIV_nonneg_imp_nondecreasing [OF assms])
    fix t :: real
    have "((\<lambda>t. t - tanh t) has_real_derivative (1 - (1 - (tanh t)\<^sup>2))) (at t)"
      by (auto intro!: derivative_eq_intros)
    then show "\<exists>y. ((\<lambda>t. t - tanh t) has_real_derivative y) (at t) \<and> 0 \<le> y"
      by (intro exI [of _ "1 - (1 - (tanh t)\<^sup>2)"]) simp
  qed
  then show ?thesis by simp
qed

lemma xi_nonneg:
  assumes "0 < Pe"
  shows "0 \<le> xi Pe"
proof (cases "Pe > 1 / 100000")
  case True
  have "0 < tanh Pe" using assms by simp
  moreover have "tanh Pe \<le> Pe" using assms by (simp add: tanh_le_self)
  ultimately have "1 / Pe \<le> 1 / tanh Pe"
    by (simp add: frac_le)
  then show ?thesis using True by (simp add: xi_def)
next
  case False
  then have le: "Pe \<le> 1" by simp
  then have "Pe * Pe \<le> 1" using assms by (simp add: mult_le_one)
  then have "Pe * (Pe * Pe) \<le> Pe * 1" using assms by (intro mult_left_mono) simp_all
  then have "Pe * Pe * Pe / 45 \<le> Pe / 3" using assms by (simp add: mult.assoc)
  moreover have "0 \<le> 2 / 945 * Pe * Pe * Pe * Pe * Pe" using assms by simp
  ultimately show ?thesis using False by (simp add: xi_def)
qed

lemma supg_tau_nonneg:
  assumes Pe: "0 < supg_Pe e c b" and p: "0 < p e" and s: "0 < sigma e"
  shows "0 \<le> supg_tau e c b"
proof -
  have n: "0 \<le> conv_norm b" by (simp add: conv_norm_def)
  have ps: "0 < of_int (p e) * sigma e" using p s by simp
  have "0 < 0.5 * conv_norm b * supg_h c b / (of_int (p e) * sigma e)"
    using Pe unfolding supg_Pe_def .
  then have "0 < 0.5 * conv_norm b * supg_h c b"
    using ps by (simp only: zero_less_divide_iff) (simp add: not_less_iff_gr_or_eq)
  then have "0 < conv_norm b * supg_h c b" by simp
  then have h: "0 < supg_h c b" using n by (simp add: zero_less_mult_iff)
  have "0 \<le> 0.5 * supg_h c b * xi (supg_Pe e c b)"
    using h xi_nonneg [OF Pe] by simp
  moreover have "0 \<le> of_int (p e) * conv_norm b" using p n by simp
  ultimately show ?thesis unfolding supg_tau_def by (rule divide_nonneg_nonneg)
qed

subsection \<open>The two branches of the Peclet function at the crossover\<close>

text \<open>
  In exact arithmetic: the hyperbolic sine and cosine lie between explicit polynomials
  (Maclaurin's formula for the exponential function with a remainder of order seven),
  and so does the closed form \<open>cosh x / sinh x - 1 / x\<close>.
\<close>

lemma exp_le_3: fixes t :: real assumes "t \<le> 1" shows "exp t \<le> 3"
proof -
  have "exp t \<le> exp 1" using assms by simp
  also have "exp (1::real) \<le> 1 + 1 + 1\<^sup>2" by (rule exp_bound) simp_all
  finally show ?thesis by simp
qed

lemma exp_Maclaurin7:
  fixes x :: real
  assumes "\<bar>x\<bar> \<le> 1"
  shows "\<exists>r. 0 \<le> r \<and> r \<le> 3 \<and>
    exp x = 1 + x + x^2 / 2 + x^3 / 6 + x^4 / 24 + x^5 / 120 + x^6 / 720 + r * x^7 / 5040"
proof -
  from Maclaurin_exp_le [of x 7] obtain t where
    t: "\<bar>t\<bar> \<le> \<bar>x\<bar>" and e: "exp x = (\<Sum>m<7. (x ^ m) / fact m) + (exp t / fact 7) * x ^ 7"
    by blast
  have "t \<le> 1" using t assms by simp
  then have "exp t \<le> 3" by (rule exp_le_3)
  moreover have "0 \<le> exp t" by simp
  moreover have "exp x = 1 + x + x^2 / 2 + x^3 / 6 + x^4 / 24 + x^5 / 120 + x^6 / 720
      + exp t * x^7 / 5040"
    unfolding e by (simp add: eval_nat_numeral fact_numeral)
  ultimately show ?thesis by blast
qed

lemma sinh_cosh_bounds:
  fixes x :: real
  assumes "0 \<le> x" and "x \<le> 1"
  shows "x + x^3 / 6 + x^5 / 120 \<le> sinh x"
    and "sinh x \<le> x + x^3 / 6 + x^5 / 120 + 6 * x^7 / 10080"
    and "1 + x^2 / 2 + x^4 / 24 + x^6 / 720 - 3 * x^7 / 10080 \<le> cosh x"
    and "cosh x \<le> 1 + x^2 / 2 + x^4 / 24 + x^6 / 720 + 3 * x^7 / 10080"
proof -
  from exp_Maclaurin7 [of x] assms obtain r1 where
    r1: "0 \<le> r1" "r1 \<le> 3" and
    e1: "exp x = 1 + x + x^2 / 2 + x^3 / 6 + x^4 / 24 + x^5 / 120 + x^6 / 720 + r1 * x^7 / 5040"
    by auto
  from exp_Maclaurin7 [of "- x"] assms obtain r2 where
    r2: "0 \<le> r2" "r2 \<le> 3" and
    e2: "exp (- x) = 1 - x + x^2 / 2 - x^3 / 6 + x^4 / 24 - x^5 / 120 + x^6 / 720
           - r2 * x^7 / 5040"
    by auto
  have x7: "0 \<le> x^7" using assms by simp
  have s: "sinh x = x + x^3 / 6 + x^5 / 120 + (r1 + r2) * x^7 / 10080"
    unfolding sinh_def e1 e2 by (simp add: field_simps)
  have c: "cosh x = 1 + x^2 / 2 + x^4 / 24 + x^6 / 720 + (r1 - r2) * x^7 / 10080"
    unfolding cosh_def e1 e2 by (simp add: field_simps)
  have "0 \<le> (r1 + r2) * x^7" using r1 r2 x7 by simp
  then show "x + x^3 / 6 + x^5 / 120 \<le> sinh x" unfolding s by simp
  have "(r1 + r2) * x^7 \<le> 6 * x^7" using r1 r2 x7 by (intro mult_right_mono) simp_all
  then show "sinh x \<le> x + x^3 / 6 + x^5 / 120 + 6 * x^7 / 10080" unfolding s by simp
  have "- 3 * x^7 \<le> (r1 - r2) * x^7" using r1 r2 x7 by (intro mult_right_mono) simp_all
  then show "1 + x^2 / 2 + x^4 / 24 + x^6 / 720 - 3 * x^7 / 10080 \<le> cosh x"
    unfolding c by simp
  have "(r1 - r2) * x^7 \<le> 3 * x^7" using r1 r2 x7 by (intro mult_right_mono) simp_all
  then show "cosh x \<le> 1 + x^2 / 2 + x^4 / 24 + x^6 / 720 + 3 * x^7 / 10080"
    unfolding c by simp
qed

lemma quotient_bounds:
  fixes x s c :: real
  assumes s: "0 < sL" "sL \<le> s" "s \<le> sU" and c: "cL \<le> c" "c \<le> cU"
    and x: "0 < x" and n: "0 \<le> x * cL - sU"
  shows "(x * cL - sU) / (x * sU) \<le> c / s - 1 / x"
    and "c / s - 1 / x \<le> (x * cU - sL) / (x * sL)"
proof -
  have s0: "0 < s" using s by simp
  have eq: "c / s - 1 / x = (x * c - s) / (x * s)"
    using s0 x by (simp add: field_simps)
  have n1: "x * cL - sU \<le> x * c - s"
    using c(1) s(3) x by (simp add: add_mono mult_left_mono diff_mono)
  have n2: "x * c - s \<le> x * cU - sL"
    using c(2) s(2) x by (simp add: mult_left_mono diff_mono)
  have d1: "x * s \<le> x * sU" using s(3) x by simp
  have d2: "x * sL \<le> x * s" using s(2) x by simp
  show "(x * cL - sU) / (x * sU) \<le> c / s - 1 / x"
    unfolding eq using n n1 d1 s0 x by (intro frac_le) simp_all
  have "0 \<le> x * c - s" using n n1 by simp
  then show "c / s - 1 / x \<le> (x * cU - sL) / (x * sL)"
    unfolding eq using n2 d2 s(1) x by (intro frac_le) simp_all
qed

lemma xi_branches: "xi Pe = (if Pe > 1 / 100000 then xi_closed Pe else xi_taylor Pe)"
  by (simp add: xi_def xi_closed_def xi_taylor_def)

lemma xi_closed_crossover_tight:
  defines "x \<equiv> (1 / 100000 :: real)"
  shows "xi_taylor x * (1 - 1 / 10 ^ 20) \<le> xi_closed x"
    and "xi_closed x \<le> xi_taylor x * (1 + 1 / 10 ^ 20)"
proof -
  define sL where "sL = x + x^3 / 6 + x^5 / 120"
  define sU where "sU = x + x^3 / 6 + x^5 / 120 + 6 * x^7 / 10080"
  define cL where "cL = 1 + x^2 / 2 + x^4 / 24 + x^6 / 720 - 3 * x^7 / 10080"
  define cU where "cU = 1 + x^2 / 2 + x^4 / 24 + x^6 / 720 + 3 * x^7 / 10080"
  have x01: "0 \<le> x" "x \<le> 1" "0 < x" by (simp_all add: x_def)
  note b = sinh_cosh_bounds [OF x01(1,2)]
  have s: "sL \<le> sinh x" "sinh x \<le> sU" using b(1,2) by (simp_all add: sL_def sU_def)
  have c: "cL \<le> cosh x" "cosh x \<le> cU" using b(3,4) by (simp_all add: cL_def cU_def)
  have sL0: "0 < sL" by (simp add: sL_def x_def power_divide)
  have n: "0 \<le> x * cL - sU" by (simp add: cL_def sU_def x_def power_divide)
  note q = quotient_bounds [OF sL0 s c x01(3) n]
  have closed: "xi_closed x = cosh x / sinh x - 1 / x"
    by (simp add: xi_closed_def tanh_def)
  have lo: "xi_taylor x * (1 - 1 / 10 ^ 20) \<le> (x * cL - sU) / (x * sU)"
    by (simp add: xi_taylor_def cL_def sU_def x_def power_divide)
  have hi: "(x * cU - sL) / (x * sL) \<le> xi_taylor x * (1 + 1 / 10 ^ 20)"
    by (simp add: xi_taylor_def cU_def sL_def x_def power_divide)
  show "xi_taylor x * (1 - 1 / 10 ^ 20) \<le> xi_closed x"
    unfolding closed using lo q(1) by (rule order_trans)
  show "xi_closed x \<le> xi_taylor x * (1 + 1 / 10 ^ 20)"
    unfolding closed using q(2) hi by (rule order_trans)
qed

lemma xi_taylor_crossover_pos: "0 < xi_taylor (1 / 100000)"
  by (simp add: xi_taylor_def)

lemma xi_crossover_agree:
  "\<bar>xi_closed (1 / 100000) - xi_taylor (1 / 100000)\<bar> \<le> xi_taylor (1 / 100000) / 10 ^ 12"
  "\<bar>xi_closed (1 / 100000) - xi_taylor (1 / 100000)\<bar> \<le> xi_closed (1 / 100000) / 10 ^ 12"
proof -
  define T where "T = xi_taylor (1 / 100000)"
  define C where "C = xi_closed (1 / 100000)"
  have T: "0 < T" unfolding T_def by (rule xi_taylor_crossover_pos)
  have lo: "T * (1 - 1 / 10 ^ 20) \<le> C" and hi: "C \<le> T * (1 + 1 / 10 ^ 20)"
    unfolding T_def C_def by (rule xi_closed_crossover_tight)+
  have "C - T \<le> T / 10 ^ 20" using hi by (simp add: algebra_simps)
  moreover have "T - C \<le> T / 10 ^ 20" using lo by (simp add: algebra_simps)
  ultimately have d: "\<bar>C - T\<bar> \<le> T / 10 ^ 20" by linarith
  have "T / 10 ^ 20 \<le> T / 10 ^ 12" using T by simp
  with d show "\<bar>C - T\<bar> \<le> T / 10 ^ 12" by linarith
  have "T / 2 \<le> C" using lo T by (simp add: algebra_simps)
  then have "T / 10 ^ 20 \<le> C / 10 ^ 12" using T by simp
  with d show "\<bar>C - T\<bar> \<le> C / 10 ^ 12" by linarith
qed

text \<open>
  In binary64: a number between \<open>2^16\<close> and \<open>2^17\<close> is a multiple of \<open>2^-36\<close>, and the
  difference of two such numbers is a binary64 number again, so that a subtraction
  returns it without rounding.  At the crossover both \<open>1.0/tanh(Pe)\<close> and \<open>1.0/Pe\<close> are
  between \<open>2^16\<close> and \<open>2^17\<close>.
\<close>

lemma binary64_grid:
  assumes b: "is_binary64 x" and lo: "2 ^ 16 \<le> x"
  shows "\<exists>k::int. x = of_int k / 2 ^ 36"
proof -
  from b obtain m :: int and n :: nat where m: "\<bar>m\<bar> < 2 ^ 53"
    and x: "x = of_int m * 2 ^ n \<and> n \<le> 971 \<or> x = of_int m / 2 ^ n \<and> n \<le> 1074"
    unfolding is_binary64_def by blast
  from x show ?thesis
  proof
    assume "x = of_int m * 2 ^ n \<and> n \<le> 971"
    then have "x = of_int (m * 2 ^ n * 2 ^ 36) / 2 ^ 36" by simp
    then show ?thesis ..
  next
    assume a: "x = of_int m / 2 ^ n \<and> n \<le> 1074"
    show ?thesis
    proof (cases "n \<le> 36")
      case True
      then have e: "(2::real) ^ n * 2 ^ (36 - n) = 2 ^ 36"
        by (simp add: power_add [symmetric])
      have "x = of_int m / 2 ^ n" using a by simp
      also have "\<dots> = (of_int m * 2 ^ (36 - n)) / (2 ^ n * 2 ^ (36 - n))" by simp
      also have "\<dots> = of_int (m * 2 ^ (36 - n)) / 2 ^ 36"
        by (simp only: e of_int_mult of_int_power of_int_numeral)
      finally show ?thesis ..
    next
      case False
      then have "37 \<le> n" by simp
      then have p: "(2::real) ^ 37 \<le> 2 ^ n" by (intro power_increasing) simp_all
      have "real_of_int m < 2 ^ 53"
      proof -
        have "m < 2 ^ 53" using m by simp
        then have "real_of_int m < real_of_int (2 ^ 53)" by (simp only: of_int_less_iff)
        then show ?thesis by simp
      qed
      then have "real_of_int m < 2 ^ 16 * 2 ^ 37" by simp
      also have "\<dots> \<le> 2 ^ 16 * 2 ^ n" using p by (intro mult_left_mono) simp_all
      finally have "real_of_int m / 2 ^ n < 2 ^ 16" by (simp add: pos_divide_less_eq)
      with a lo show ?thesis by simp
    qed
  qed
qed

lemma binary64_difference:
  assumes "is_binary64 a" "2 ^ 16 \<le> a" "a \<le> 2 ^ 17"
    and "is_binary64 b" "2 ^ 16 \<le> b" "b \<le> 2 ^ 17"
  shows "\<exists>k::int. a - b = of_int k / 2 ^ 36" and "is_binary64 (a - b)"
proof -
  from binary64_grid [OF assms(1,2)] obtain ka :: int where a: "a = of_int ka / 2 ^ 36" ..
  from binary64_grid [OF assms(4,5)] obtain kb :: int where b: "b = of_int kb / 2 ^ 36" ..
  have d: "a - b = of_int (ka - kb) / 2 ^ 36" by (simp add: a b diff_divide_distrib)
  then show "\<exists>k::int. a - b = of_int k / 2 ^ 36" ..
  have "\<bar>a - b\<bar> \<le> 2 ^ 16" using assms(2,3,5,6) by simp
  then have "\<bar>real_of_int (ka - kb)\<bar> \<le> 2 ^ 16 * 2 ^ 36"
    unfolding d by (simp add: pos_divide_le_eq)
  then have "\<bar>real_of_int (ka - kb)\<bar> < real_of_int (2 ^ 53)" by simp
  then have "real_of_int \<bar>ka - kb\<bar> < real_of_int (2 ^ 53)" by simp
  then have "\<bar>ka - kb\<bar> < 2 ^ 53" by (simp only: of_int_less_iff)
  with d show "is_binary64 (a - b)"
    unfolding is_binary64_def by (intro exI [of _ "ka - kb"] exI [of _ "36::nat"]) simp
qed

lemma crossover64_binary64: "is_binary64 crossover64"
  unfolding is_binary64_def crossover64_def
  by (intro exI [of _ "5902958103587057::int"] exI [of _ "69::nat"]) simp

lemma crossover64_nearest: "\<bar>crossover64 - 1 / 100000\<bar> < 1 / 2 ^ 70"
  by (simp add: crossover64_def abs_if)

lemma xi_taylor_crossover64:
  "3333333333 / 10 ^ 15 \<le> xi_taylor crossover64"
  "xi_taylor crossover64 \<le> 3333333334 / 10 ^ 15"
  by (simp_all add: xi_taylor_def crossover64_def)

lemma crossover64_quotients:
  "2 ^ 16 \<le> 1 / crossover64" "1 / crossover64 \<le> 2 ^ 17"
  "2 ^ 16 \<le> 1 / tanh crossover64" "1 / tanh crossover64 \<le> 2 ^ 17"
proof -
  have x: "0 \<le> crossover64" "crossover64 \<le> 1" "0 < crossover64"
    by (simp_all add: crossover64_def)
  show a: "2 ^ 16 \<le> 1 / crossover64" and "1 / crossover64 \<le> 2 ^ 17"
    by (simp_all add: crossover64_def)
  have t: "0 < tanh crossover64" using x(3) by simp
  have "tanh crossover64 \<le> crossover64" using x(1) by (rule tanh_le_self)
  then have "1 / crossover64 \<le> 1 / tanh crossover64" using t by (simp add: frac_le)
  with a show "2 ^ 16 \<le> 1 / tanh crossover64" by simp
  note b = sinh_cosh_bounds [OF x(1,2)]
  have "0 \<le> crossover64 ^ 3 / 6 + crossover64 ^ 5 / 120" using x(1) by simp
  then have s: "crossover64 \<le> sinh crossover64" using b(1) by simp
  have c: "cosh crossover64 \<le> 11 / 10"
    using b(4) by (simp add: crossover64_def power_divide)
  have "1 / tanh crossover64 = cosh crossover64 / sinh crossover64"
    by (simp add: tanh_def)
  also have "\<dots> \<le> (11 / 10) / crossover64" using s c x(3) by (intro frac_le) simp_all
  also have "\<dots> \<le> 2 ^ 17" by (simp add: crossover64_def)
  finally show "1 / tanh crossover64 \<le> 2 ^ 17" .
qed

subsection \<open>The directed diameter is a chord of the triangle\<close>







subsection \<open>Sign of the intermediate values, and what a returned value is\<close>

lemma xi_zero: "xi 0 = 0"
  by (simp add: xi_def)

lemma xi_nonneg': "0 \<le> Pe \<Longrightarrow> 0 \<le> xi Pe"
  using xi_nonneg [of Pe] xi_zero by (cases "Pe = 0") simp_all

lemma supg_h_nonneg: "0 \<le> volume c \<Longrightarrow> 0 \<le> supg_h c b"
  unfolding supg_h_def using conv_norm_nonneg [of b] edge_sum_nonneg [of c b]
  by (intro divide_nonneg_nonneg mult_nonneg_nonneg) simp_all

lemma supg_Pe_nonneg:
  assumes "0 \<le> volume c" and "0 < p e" and "0 < sigma e"
  shows "0 \<le> supg_Pe e c b"
  unfolding supg_Pe_def using supg_h_nonneg [OF assms(1), of b] conv_norm_nonneg [of b] assms(2,3)
  by (intro divide_nonneg_nonneg mult_nonneg_nonneg) simp_all

lemma supg_tau_nonneg':
  assumes "0 \<le> volume c" and "0 < p e" and "0 < sigma e"
  shows "0 \<le> supg_tau e c b"
  unfolding supg_tau_def
  using supg_h_nonneg [OF assms(1), of b] conv_norm_nonneg [of b] assms(2)
    xi_nonneg' [OF supg_Pe_nonneg [OF assms, of b]]
  by (intro divide_nonneg_nonneg mult_nonneg_nonneg) simp_all

lemma supg_eval_Returned:
  assumes "supg_eval eps e c b = Returned r" and "eps \<le> conv_norm b"
  shows "r = (fst b * supg_tau e c b, snd b * supg_tau e c b) \<and> supg_tau e c b \<le> 1000
    \<and> 0 < supg_Pe e c b \<and> supg_h c b \<le> diameter c \<and> edge_sum c b \<noteq> 0"
  using assms by (auto simp add: supg_eval_def supg_tau_def split: if_splits)

lemma supg2_eval_Returned:
  assumes "supg2_eval eps e c b t = Returned x"
  shows "x = supg_tau e c b"
  using assms by (auto simp add: supg2_eval_def supg_tau_def Let_def split: if_splits)

subsection \<open>The model on the concrete inputs\<close>

lemma norm_unit: "conv_norm (1, 0) = 1"
  by (simp add: conv_norm_def)

lemma h_unit: "supg_h unit_triangle (1, 0) = 1"
  by (simp add: supg_h_def norm_unit unit_triangle_sum) (simp add: unit_triangle_def)




lemma Pe_unit_stiff: "supg_Pe stiff_stab unit_triangle (1, 0) = 1 / (2 * 10 ^ 6)"
  by (simp add: supg_Pe_def h_unit norm_unit stiff_stab_def)

lemma Pe_unit_unit: "supg_Pe unit_stab unit_triangle (1, 0) = 1 / 2"
  by (simp add: supg_Pe_def h_unit norm_unit unit_stab_def)

lemma one_le_sqrt2: "1 \<le> sqrt 2"
  by (simp add: real_le_rsqrt)


lemma norm_tiny: "conv_norm tiny_flow = 1 / 10 ^ 16"
  by (simp add: tiny_flow_def conv_norm_axis)

lemma sum_tiny: "edge_sum unit_triangle tiny_flow = 2 / 10 ^ 16"
  by (simp add: tiny_flow_def edge_sum_eq edge_term_def unit_triangle_def)

lemma h_tiny: "supg_h unit_triangle tiny_flow = 1"
  by (simp add: supg_h_def norm_tiny sum_tiny) (simp add: unit_triangle_def)

lemma Pe_tiny: "supg_Pe unit_stab unit_triangle tiny_flow = 5 / 10 ^ 17"
  by (simp add: supg_Pe_def h_tiny norm_tiny unit_stab_def)

lemma norm_slow: "conv_norm slow_flow = 1 / 10 ^ 9"
  by (simp add: slow_flow_def conv_norm_axis)

lemma sum_slow: "edge_sum big_triangle slow_flow = 2 / 10 ^ 6"
  by (simp add: slow_flow_def edge_sum_eq edge_term_def big_triangle_def)

lemma h_slow: "supg_h big_triangle slow_flow = 1000"
  by (simp add: supg_h_def norm_slow sum_slow) (simp add: big_triangle_def)

lemma Pe_slow: "supg_Pe unit_stab big_triangle slow_flow = 5 / 10 ^ 7"
  by (simp add: supg_Pe_def h_slow norm_slow unit_stab_def)

lemma tau_slow: "1000 < supg_tau unit_stab big_triangle slow_flow"
  unfolding supg_tau_def h_slow Pe_slow norm_slow by (simp add: unit_stab_def xi_def)

lemma tau_unit_stiff: "supg_tau stiff_stab unit_triangle (1, 0) \<le> 1000"
  unfolding supg_tau_def h_unit Pe_unit_stiff norm_unit by (simp add: stiff_stab_def xi_def)

lemma supg_eval_stiff:
  "supg_eval DOLFIN_EPS stiff_stab unit_triangle (1, 0)
     = Returned (supg_tau stiff_stab unit_triangle (1, 0), 0)"
proof -
  have "\<not> conv_norm (1, 0) < DOLFIN_EPS" by (simp add: norm_unit DOLFIN_EPS_def)
  moreover have "edge_sum unit_triangle (1, 0) \<noteq> 0" by (simp add: unit_triangle_sum)
  moreover have "supg_h unit_triangle (1, 0) \<le> diameter unit_triangle"
    by (simp add: h_unit) (simp add: unit_triangle_def one_le_sqrt2)
  moreover have "of_int (p stiff_stab) * sigma stiff_stab \<noteq> 0" by (simp add: stiff_stab_def)
  moreover have "0 < supg_Pe stiff_stab unit_triangle (1, 0)" by (simp add: Pe_unit_stiff)
  moreover note tau_unit_stiff
  ultimately show ?thesis by (simp add: supg_eval_def supg_tau_def)
qed

lemma big_slow_guards:
  "DOLFIN_EPS \<le> conv_norm slow_flow \<and> edge_sum big_triangle slow_flow \<noteq> 0
   \<and> supg_h big_triangle slow_flow \<le> diameter big_triangle
   \<and> of_int (p unit_stab) * sigma unit_stab \<noteq> 0
   \<and> 0 < supg_Pe unit_stab big_triangle slow_flow"
  using one_le_sqrt2 by (simp add: norm_slow sum_slow h_slow Pe_slow DOLFIN_EPS_def)
     (simp add: big_triangle_def unit_stab_def)

section \<open>Facts about the fixed-point loop\<close>

lemma fp_loop_unfold:
  "fp_loop P tol s =
     (if snd (fp_pass P s) < tol then Some (fp_result P s) else fp_loop P tol (fp_next P s))"
  by (subst fp_loop.simps) (simp add: Let_def fp_result_def fp_next_def)

lemma fp_iter_Suc: "fp_iter P (Suc n) s = fp_iter P n (fp_next P s)"
  by (simp add: fp_iter_def funpow_swap1)

lemma fp_diff_0: "fp_diff P s 0 = snd (fp_pass P s)"
  by (simp add: fp_diff_def fp_iter_def)

lemma fp_diff_Suc: "fp_diff P s (Suc n) = fp_diff P (fp_next P s) n"
  by (simp add: fp_diff_def fp_iter_Suc)

lemma fp_loop_exits:
  "fp_diff P s n < tol \<Longrightarrow> (\<And>m. m < n \<Longrightarrow> \<not> fp_diff P s m < tol)
     \<Longrightarrow> fp_loop P tol s = Some (fp_result P (fp_iter P n s))"
proof (induction n arbitrary: s)
  case 0
  then show ?case by (subst fp_loop_unfold) (simp add: fp_diff_0 fp_iter_def)
next
  case (Suc n)
  have first: "\<not> snd (fp_pass P s) < tol" using Suc.prems(2) [of 0] by (simp add: fp_diff_0)
  have "fp_loop P tol (fp_next P s) = Some (fp_result P (fp_iter P n (fp_next P s)))"
  proof (rule Suc.IH)
    show "fp_diff P (fp_next P s) n < tol" using Suc.prems(1) by (simp add: fp_diff_Suc)
    fix m assume "m < n"
    then show "\<not> fp_diff P (fp_next P s) m < tol"
      using Suc.prems(2) [of "Suc m"] by (simp add: fp_diff_Suc)
  qed
  then show ?case using first by (subst fp_loop_unfold) (simp add: fp_iter_Suc)
qed

lemma fp_loop_Some_exits:
  fixes P :: "('u, 'q, 't, 'r, 'f) problem"
  assumes "fp_loop P tol s = Some y"
  shows "\<exists>n. fp_diff P s n < tol"
proof -
  define Q :: "(('u, 'q, 't, 'r, 'f) problem \<times> real) \<times> ('u, 'q, 't) fp_state \<Rightarrow> 'u \<times> 'q \<times> 't \<Rightarrow> bool"
    where "Q = (\<lambda>a y. \<exists>n. fp_diff (fst (fst a)) (snd a) n < snd (fst a))"
  have "Q ((P, tol), s) y"
  proof (rule fp_loop.raw_induct [where Pa = Q, OF _ assms])
    fix loop :: "('u, 'q, 't, 'r, 'f) problem \<Rightarrow> real \<Rightarrow> ('u, 'q, 't) fp_state \<Rightarrow> ('u \<times> 'q \<times> 't) option"
      and P tol s y
    assume IH: "\<And>P tol s y. loop P tol s = Some y \<Longrightarrow> Q ((P, tol), s) y"
      and body: "(let r = fp_pass P s; s = fst r; diff = snd r
           in if diff < tol then Some (fst (s_up0 s), snd (s_up0 s), s_theta0 s)
              else loop P tol (s\<lparr>s_theta0 := s_theta1 s\<rparr>)) = Some y"
    show "Q ((P, tol), s) y"
    proof (cases "snd (fp_pass P s) < tol")
      case True
      then have "fp_diff P s 0 < tol" by (simp add: fp_diff_0)
      then show ?thesis unfolding Q_def by auto
    next
      case False
      with body have "loop P tol (fp_next P s) = Some y" by (simp add: Let_def fp_next_def)
      from IH [OF this] obtain n where "fp_diff P (fp_next P s) n < tol"
        unfolding Q_def by auto
      then have "fp_diff P s (Suc n) < tol" by (simp add: fp_diff_Suc)
      then show ?thesis unfolding Q_def by auto
    qed
  qed
  then show ?thesis by (simp add: Q_def)
qed

lemma fp_loop_None_iff: "fp_loop P tol s = None \<longleftrightarrow> (\<forall>n. \<not> fp_diff P s n < tol)"
proof
  assume "fp_loop P tol s = None"
  show "\<forall>n. \<not> fp_diff P s n < tol"
  proof (rule ccontr)
    assume "\<not> (\<forall>n. \<not> fp_diff P s n < tol)"
    then have ex: "\<exists>n. fp_diff P s n < tol" by simp
    define k where "k = (LEAST n. fp_diff P s n < tol)"
    have "fp_diff P s k < tol" unfolding k_def using ex by (rule LeastI_ex)
    moreover have "\<And>m. m < k \<Longrightarrow> \<not> fp_diff P s m < tol"
      unfolding k_def by (rule not_less_Least)
    ultimately have "fp_loop P tol s = Some (fp_result P (fp_iter P k s))" by (rule fp_loop_exits)
    with \<open>fp_loop P tol s = None\<close> show False by simp
  qed
next
  assume "\<forall>n. \<not> fp_diff P s n < tol"
  then show "fp_loop P tol s = None"
    using fp_loop_Some_exits [of P tol s] by (cases "fp_loop P tol s") auto
qed

subsection \<open>What one pass computes, and the first pass that leaves the loop\<close>

lemma solve_fixed_point_eq:
  "solve_fixed_point P u0 p0 theta0 tol = fp_loop P tol (fp_start theta0)"
  by (simp add: solve_fixed_point_def fp_start_def)

lemma fp_pass_theta1:
  "s_theta1 (fst (fp_pass P s)) = heat_solve P (fst (s_up0 s)) (rho P (s_theta0 s))"
  by (simp add: fp_pass_def Let_def)

lemma fp_pass_theta0: "s_theta0 (fst (fp_pass P s)) = s_theta0 s"
  by (simp add: fp_pass_def Let_def)

lemma fp_pass_up0:
  "s_up0 (fst (fp_pass P s)) =
     stokes_solve P (s_up0 s)
       (case extra_force P of None \<Rightarrow> times_g P (rho P (s_theta0 s))
        | Some x \<Rightarrow> add_force P (times_g P (rho P (s_theta0 s))) x)"
  by (simp add: fp_pass_def Let_def split: option.split)

lemma fp_pass_diff:
  "snd (fp_pass P s) = errornorm P (s_theta0 s) (heat_solve P (fst (s_up0 s)) (rho P (s_theta0 s)))"
  by (simp add: fp_pass_def Let_def)

lemma fp_iter_0: "fp_iter P 0 s = s"
  by (simp add: fp_iter_def)

lemma fp_iter_step: "fp_iter P (Suc n) s = fp_next P (fp_iter P n s)"
  by (simp add: fp_iter_def)

lemma fp_next_theta0:
  "s_theta0 (fp_next P s) = heat_solve P (fst (s_up0 s)) (rho P (s_theta0 s))"
  by (simp add: fp_next_def fp_pass_theta1)

lemma fp_result_theta: "snd (snd (fp_result P s)) = s_theta0 s"
  by (simp add: fp_result_def Let_def fp_pass_theta0)

lemma fp_loop_Some_least:
  fixes P :: "('u, 'q, 't, 'r, 'f) problem"
  assumes "fp_loop P tol s = Some y"
  shows "\<exists>n. fp_diff P s n < tol \<and> (\<forall>m<n. \<not> fp_diff P s m < tol)
           \<and> y = fp_result P (fp_iter P n s)"
proof -
  from fp_loop_Some_exits [OF assms] have ex: "\<exists>n. fp_diff P s n < tol" .
  define k where "k = (LEAST n. fp_diff P s n < tol)"
  have k: "fp_diff P s k < tol" unfolding k_def using ex by (rule LeastI_ex)
  have least: "\<And>m. m < k \<Longrightarrow> \<not> fp_diff P s m < tol"
    unfolding k_def by (rule not_less_Least)
  from k least have "fp_loop P tol s = Some (fp_result P (fp_iter P k s))"
    by (rule fp_loop_exits)
  with assms have "y = fp_result P (fp_iter P k s)" by simp
  with k least show ?thesis by blast
qed

subsection \<open>The loop on the concrete problems\<close>

lemma growing_pass:
  "fp_pass growing_problem s
     = (s\<lparr>s_theta1 := s_theta0 s + 1, s_up0 := (s_theta0 s, snd (s_up0 s))\<rparr>, 1)"
  by (simp add: fp_pass_def growing_problem_def Let_def)

lemma growing_diff: "fp_diff growing_problem s n = 1"
  by (simp add: fp_diff_def growing_pass)

lemma halving_pass:
  "fp_pass halving_problem s
     = (s\<lparr>s_theta1 := s_theta0 s / 2, s_up0 := (s_theta0 s, snd (s_up0 s))\<rparr>,
        \<bar>s_theta0 s - s_theta0 s / 2\<bar>)"
  by (simp add: fp_pass_def halving_problem_def Let_def)

lemma halving_iter_1:
  "fp_iter halving_problem (Suc 0) (fp_start 1) = \<lparr>s_up0 = (1, 0), s_theta0 = 1 / 2, s_theta1 = 1 / 2\<rparr>"
  by (simp add: fp_iter_def fp_next_def halving_pass fp_start_def)

lemma halving_diff_0: "fp_diff halving_problem (fp_start 1) 0 = 1 / 2"
  by (simp add: fp_diff_0 halving_pass fp_start_def)

lemma halving_diff_1: "fp_diff halving_problem (fp_start 1) (Suc 0) = 1 / 4"
  unfolding fp_diff_def halving_iter_1 by (simp add: halving_pass)

lemma halving_result_1:
  "fp_result halving_problem (fp_iter halving_problem (Suc 0) (fp_start 1)) = (1 / 2, 0, 1 / 2)"
  unfolding halving_iter_1 by (simp add: fp_result_def halving_pass)


section \<open>The stabilization evaluators: claims\<close>

text \<open>
  Claim C1, as amended.  For the unit right triangle with vertices (0,0), (1,0), (0,1) and
  the flow direction b = (1,0), the area is 1/2, the sum of \<open>|e_y*b_x - e_x*b_y|\<close> over the
  three edges is 2 (the edges contribute 0, 1 and 1), and the directed diameter
  \<open>h = 4*||b||*area/sum\<close> is 1.
\<close>

theorem unit_triangle_directed_diameter:
  "tri_area unit_triangle = 1 / 2 \<and> volume unit_triangle = 1 / 2
     \<and> edge_sum unit_triangle (1, 0) = 2 \<and> supg_h unit_triangle (1, 0) = 1"
  by (simp add: unit_triangle_sum h_unit) (simp add: tri_area_def unit_triangle_def)

text \<open>
  Claim C1 as stated gives the sum the value 1 and the directed diameter the value 2;
  the code computes neither.
\<close>

theorem unit_triangle_claimed_values_fail:
  "\<not> (volume unit_triangle = 1 / 2 \<and> edge_sum unit_triangle (1, 0) = 1
        \<and> supg_h unit_triangle (1, 0) = 2)"
  by (simp add: unit_triangle_sum)

text \<open>
  Claim C3.  With a convection norm below \<open>DOLFIN_EPS\<close>, \<open>supg\<close> returns the zero vector at
  once.  \<open>supg2\<close> does not: for the unit triangle and the convection sample (1e-16, 0)
  it goes on to the directed diameter and returns a value above 1/13; for the convection
  sample (0, 0) it divides by the edge sum 0.
\<close>

theorem supg2_small_convection_falls_through:
  "conv_norm tiny_flow < DOLFIN_EPS
     \<and> is_Returned (supg2_eval DOLFIN_EPS unit_stab unit_triangle tiny_flow 0)
     \<and> 1 / 13 < the_value (supg2_eval DOLFIN_EPS unit_stab unit_triangle tiny_flow 0)
     \<and> supg_eval DOLFIN_EPS unit_stab unit_triangle tiny_flow = Returned (0, 0)
     \<and> supg2_eval DOLFIN_EPS unit_stab unit_triangle (0, 0) 0 = NonFinite
     \<and> supg_eval DOLFIN_EPS unit_stab unit_triangle (0, 0) = Returned (0, 0)"
proof -
  have small: "conv_norm tiny_flow < DOLFIN_EPS" by (simp add: norm_tiny DOLFIN_EPS_def)
  have r: "supg2_eval DOLFIN_EPS unit_stab unit_triangle tiny_flow 0
      = Returned (0.5 * 1 * xi (5 / 10 ^ 17) / (1 * (1 / 10 ^ 16)))"
    unfolding supg2_eval_def Pe_tiny h_tiny norm_tiny sum_tiny by (simp add: unit_stab_def)
  have v: "0.5 * 1 * xi (5 / 10 ^ 17) / (1 * (1 / 10 ^ 16)) > (1 / 13 :: real)"
    by (simp add: xi_def)
  have z: "supg2_eval DOLFIN_EPS unit_stab unit_triangle (0, 0) 0 = NonFinite"
    by (simp add: supg2_eval_def edge_sum_zero_flow)
  have "conv_norm (0, 0) < DOLFIN_EPS" by (simp add: conv_norm_def DOLFIN_EPS_def)
  then have z': "supg_eval DOLFIN_EPS unit_stab unit_triangle (0, 0) = Returned (0, 0)"
    by (simp add: supg_eval_def)
  have s: "supg_eval DOLFIN_EPS unit_stab unit_triangle tiny_flow = Returned (0, 0)"
    using small by (simp add: supg_eval_def)
  show ?thesis using small v z z' s unfolding r by simp
qed




text \<open>
  Claim C5, as amended.  In \<open>supg\<close>, a returned vector is \<open>tau*b\<close> with \<open>tau\<close> at most 1000,
  and an evaluation that reaches a \<open>tau\<close> above 1000 aborts with the \<open>throw\<close>.  \<open>supg2\<close>
  has no such check: it never aborts for that reason and returns \<open>tau\<close> whatever its size.
\<close>

theorem tau_sanity_bound:
  "(supg_eval eps e c b = Returned r \<and> eps \<le> conv_norm b
      \<longrightarrow> supg_tau e c b \<le> 1000 \<and> r = (fst b * supg_tau e c b, snd b * supg_tau e c b))
   \<and> (eps \<le> conv_norm b \<and> edge_sum c b \<noteq> 0 \<and> supg_h c b \<le> diameter c
        \<and> of_int (p e) * sigma e \<noteq> 0 \<and> 0 < supg_Pe e c b \<and> 1000 < supg_tau e c b
      \<longrightarrow> supg_eval eps e c b = Aborted TauThrow)
   \<and> supg2_eval eps e c b t \<noteq> Aborted TauThrow
   \<and> (supg2_eval eps e c b t = Returned x \<longrightarrow> x = supg_tau e c b)"
proof (intro conjI impI)
  show "supg_tau e c b \<le> 1000" "r = (fst b * supg_tau e c b, snd b * supg_tau e c b)"
    if "supg_eval eps e c b = Returned r \<and> eps \<le> conv_norm b"
    using supg_eval_Returned [of eps e c b r] that by simp_all
  show "supg_eval eps e c b = Aborted TauThrow"
    if "eps \<le> conv_norm b \<and> edge_sum c b \<noteq> 0 \<and> supg_h c b \<le> diameter c
        \<and> of_int (p e) * sigma e \<noteq> 0 \<and> 0 < supg_Pe e c b \<and> 1000 < supg_tau e c b"
    using that by (simp add: supg_eval_def)
  show "supg2_eval eps e c b t \<noteq> Aborted TauThrow"
    by (simp add: supg2_eval_def Let_def)
  show "x = supg_tau e c b" if "supg2_eval eps e c b t = Returned x"
    using that by (rule supg2_eval_Returned)
qed

theorem tau_sanity_bound_witness:
  "supg_eval DOLFIN_EPS stiff_stab unit_triangle (1, 0)
       = Returned (supg_tau stiff_stab unit_triangle (1, 0), 0)
   \<and> DOLFIN_EPS \<le> conv_norm (1, 0)
   \<and> supg_tau stiff_stab unit_triangle (1, 0) \<le> 1000
   \<and> DOLFIN_EPS \<le> conv_norm slow_flow \<and> edge_sum big_triangle slow_flow \<noteq> 0
   \<and> supg_h big_triangle slow_flow \<le> diameter big_triangle
   \<and> of_int (p unit_stab) * sigma unit_stab \<noteq> 0
   \<and> 0 < supg_Pe unit_stab big_triangle slow_flow
   \<and> 1000 < supg_tau unit_stab big_triangle slow_flow
   \<and> supg_eval DOLFIN_EPS unit_stab big_triangle slow_flow = Aborted TauThrow
   \<and> supg2_eval DOLFIN_EPS unit_stab big_triangle slow_flow 0
       = Returned (supg_tau unit_stab big_triangle slow_flow)"
proof -
  have d: "DOLFIN_EPS \<le> conv_norm (1, 0)" by (simp add: norm_unit DOLFIN_EPS_def)
  have r2: "supg2_eval DOLFIN_EPS unit_stab big_triangle slow_flow 0
      = Returned (supg_tau unit_stab big_triangle slow_flow)"
    using big_slow_guards by (simp add: supg2_eval_def supg_tau_def Let_def)
  show ?thesis
    using tau_sanity_bound [of DOLFIN_EPS stiff_stab unit_triangle "(1, 0)"
        "(supg_tau stiff_stab unit_triangle (1, 0), 0)" 0 0]
      tau_sanity_bound [of DOLFIN_EPS unit_stab big_triangle slow_flow "(0, 0)" 0
        "supg_tau unit_stab big_triangle slow_flow"]
      supg_eval_stiff d big_slow_guards tau_slow r2
    by simp
qed

text \<open>
  Claim C5 as stated fails for \<open>supg2\<close>: on a triangle with legs of length 1000 and the
  flow (1e-9, 0) it returns a \<open>tau\<close> above 1000.
\<close>

theorem supg2_large_tau_returned:
  "is_Returned (supg2_eval DOLFIN_EPS unit_stab big_triangle slow_flow 0)
   \<and> 1000 < the_value (supg2_eval DOLFIN_EPS unit_stab big_triangle slow_flow 0)"
proof -
  have "supg2_eval DOLFIN_EPS unit_stab big_triangle slow_flow 0
      = Returned (supg_tau unit_stab big_triangle slow_flow)"
    using big_slow_guards by (simp add: supg2_eval_def supg_tau_def Let_def)
  then show ?thesis using tau_slow by simp
qed

text \<open>
  Claim C7, as amended.  The Peclet function is the closed form \<open>coth(Pe) - 1/Pe\<close> for
  \<open>Pe > 1e-5\<close> and the Taylor polynomial \<open>Pe/3 - Pe^3/45 + 2*Pe^5/945\<close> for
  \<open>Pe <= 1e-5\<close>; as functions of a real number the two agree at \<open>Pe = 1e-5\<close> to within
  \<open>1e-12\<close> of the value of either.
\<close>

theorem peclet_function_branches:
  "(1 / 100000 < Pe \<longrightarrow> xi Pe = xi_closed Pe)
   \<and> (Pe \<le> 1 / 100000 \<longrightarrow> xi Pe = xi_taylor Pe)
   \<and> xi_closed Pe = 1 / tanh Pe - 1 / Pe
   \<and> xi_taylor Pe = Pe / 3 - Pe ^ 3 / 45 + 2 * Pe ^ 5 / 945
   \<and> 0 < xi_taylor (1 / 100000)
   \<and> \<bar>xi_closed (1 / 100000) - xi_taylor (1 / 100000)\<bar> \<le> xi_taylor (1 / 100000) / 10 ^ 12
   \<and> \<bar>xi_closed (1 / 100000) - xi_taylor (1 / 100000)\<bar> \<le> xi_closed (1 / 100000) / 10 ^ 12"
proof (intro conjI impI)
  show "xi Pe = xi_closed Pe" if "1 / 100000 < Pe"
    using that by (simp add: xi_branches)
  show "xi Pe = xi_taylor Pe" if "Pe \<le> 1 / 100000"
    using that by (simp add: xi_branches)
  show "xi_closed Pe = 1 / tanh Pe - 1 / Pe" by (simp add: xi_closed_def)
  show "xi_taylor Pe = Pe / 3 - Pe ^ 3 / 45 + 2 * Pe ^ 5 / 945"
    by (simp add: xi_taylor_def power3_eq_cube power_numeral_reduce)
  show "0 < xi_taylor (1 / 100000)" by (rule xi_taylor_crossover_pos)
  show "\<bar>xi_closed (1 / 100000) - xi_taylor (1 / 100000)\<bar> \<le> xi_taylor (1 / 100000) / 10 ^ 12"
    by (rule xi_crossover_agree)
  show "\<bar>xi_closed (1 / 100000) - xi_taylor (1 / 100000)\<bar> \<le> xi_closed (1 / 100000) / 10 ^ 12"
    by (rule xi_crossover_agree)
qed

theorem peclet_function_branches_witness:
  "(1 / 100000 < (1::real)) \<and> xi 1 = xi_closed 1
   \<and> ((1 / 100000 :: real) \<le> 1 / 100000) \<and> xi (1 / 100000) = xi_taylor (1 / 100000)
   \<and> 0 < xi_taylor (1 / 100000)
   \<and> \<bar>xi_closed (1 / 100000) - xi_taylor (1 / 100000)\<bar> \<le> xi_taylor (1 / 100000) / 10 ^ 12"
proof -
  note t1 = peclet_function_branches [of 1]
  note t2 = peclet_function_branches [of "1 / 100000"]
  have a: "1 / 100000 < (1::real)" by simp
  have b: "(1 / 100000 :: real) \<le> 1 / 100000" by simp
  have c: "xi 1 = xi_closed 1" using t1 a by blast
  have d: "xi (1 / 100000) = xi_taylor (1 / 100000)" using t2 b by blast
  have e: "0 < xi_taylor (1 / 100000)" using t1 by blast
  have f: "\<bar>xi_closed (1 / 100000) - xi_taylor (1 / 100000)\<bar> \<le> xi_taylor (1 / 100000) / 10 ^ 12"
    using t1 by blast
  show ?thesis using a b c d e f by blast
qed

text \<open>
  Claim C7 as stated fails for the values the code computes.  At the crossover, the
  binary64 number \<open>crossover64\<close>, the closed form is the difference of the two binary64
  numbers \<open>1.0/tanh(Pe)\<close> and \<open>1.0/Pe\<close>, both between \<open>2^16\<close> and \<open>2^17\<close>, whatever
  the rounding and whatever value the library returns for \<open>tanh\<close>.  No such difference
  is within \<open>1e-12\<close>, relative to either value, of a number \<open>T\<close> that approximates the
  Taylor polynomial to within \<open>1e-9\<close>, as its binary64 evaluation does.
\<close>

theorem xi_branches_disagree_in_binary64:
  "is_binary64 crossover64 \<and> \<bar>crossover64 - 1 / 100000\<bar> < 1 / 2 ^ 70
   \<and> 2 ^ 16 \<le> 1 / crossover64 \<and> 1 / crossover64 \<le> 2 ^ 17
   \<and> 2 ^ 16 \<le> 1 / tanh crossover64 \<and> 1 / tanh crossover64 \<le> 2 ^ 17
   \<and> \<not> (\<exists>a b T. is_binary64 a \<and> 2 ^ 16 \<le> a \<and> a \<le> 2 ^ 17
          \<and> is_binary64 b \<and> 2 ^ 16 \<le> b \<and> b \<le> 2 ^ 17
          \<and> \<bar>T - xi_taylor crossover64\<bar> \<le> xi_taylor crossover64 / 10 ^ 9
          \<and> \<bar>(a - b) - T\<bar> \<le> max \<bar>T\<bar> \<bar>a - b\<bar> / 10 ^ 12)"
proof (intro conjI notI)
  show "is_binary64 crossover64" by (rule crossover64_binary64)
  show "\<bar>crossover64 - 1 / 100000\<bar> < 1 / 2 ^ 70" by (rule crossover64_nearest)
  show "2 ^ 16 \<le> 1 / crossover64" "1 / crossover64 \<le> 2 ^ 17"
    "2 ^ 16 \<le> 1 / tanh crossover64" "1 / tanh crossover64 \<le> 2 ^ 17"
    by (rule crossover64_quotients)+
next
  assume "\<exists>a b T. is_binary64 a \<and> 2 ^ 16 \<le> a \<and> a \<le> 2 ^ 17
          \<and> is_binary64 b \<and> 2 ^ 16 \<le> b \<and> b \<le> 2 ^ 17
          \<and> \<bar>T - xi_taylor crossover64\<bar> \<le> xi_taylor crossover64 / 10 ^ 9
          \<and> \<bar>(a - b) - T\<bar> \<le> max \<bar>T\<bar> \<bar>a - b\<bar> / 10 ^ 12"
  then obtain a b T where a: "is_binary64 a" "2 ^ 16 \<le> a" "a \<le> 2 ^ 17"
    and b: "is_binary64 b" "2 ^ 16 \<le> b" "b \<le> 2 ^ 17"
    and T: "\<bar>T - xi_taylor crossover64\<bar> \<le> xi_taylor crossover64 / 10 ^ 9"
    and close: "\<bar>(a - b) - T\<bar> \<le> max \<bar>T\<bar> \<bar>a - b\<bar> / 10 ^ 12"
    by blast
  from binary64_difference(1) [OF a b] obtain k :: int where k: "a - b = of_int k / 2 ^ 36" ..
  define y where "y = a - b"
  note T0 = xi_taylor_crossover64
  have T': "\<bar>T - xi_taylor crossover64\<bar> \<le> xi_taylor crossover64 / 1000000000"
    using T by simp
  have T0': "3333333333 / 1000000000000000 \<le> xi_taylor crossover64"
    "xi_taylor crossover64 \<le> 3333333334 / 1000000000000000"
    using T0 by simp_all
  have Tlo: "3333333 / 1000000000000 \<le> T" using T' T0' by linarith
  have Thi: "T \<le> 3333334 / 1000000000000" using T' T0' by linarith
  have close': "\<bar>y - T\<bar> \<le> max \<bar>T\<bar> \<bar>y\<bar> / 1000000000000"
    using close by (simp add: y_def)
  have "k \<le> 229064 \<or> 229065 \<le> k" by arith
  then show False
  proof
    assume "k \<le> 229064"
    then have "real_of_int k \<le> real_of_int 229064" by (simp only: of_int_le_iff)
    then have "y \<le> 229064 / 2 ^ 36" by (simp add: y_def k divide_right_mono)
    then have yhi: "y \<le> 3333320 / 1000000000000" by simp
    show False using close' yhi Tlo Thi by linarith
  next
    assume "229065 \<le> k"
    then have "real_of_int 229065 \<le> real_of_int k" by (simp only: of_int_le_iff)
    then have "229065 / 2 ^ 36 \<le> y" by (simp add: y_def k divide_right_mono)
    then have ylo: "33333344 / 10000000000000 \<le> y" by simp
    show False using close' ylo Tlo Thi by linarith
  qed
qed

text \<open>
  Claim C8.  With a non-negative cell volume, a positive diffusivity and a positive
  polynomial degree, \<open>tau = 0.5*h*xi(Pe)/(p*||b||)\<close> is not negative; \<open>xi\<close> is not negative
  in either of its branches; a vector returned by \<open>supg\<close> for a convection norm of at least
  \<open>eps\<close> is \<open>tau*b\<close> with that \<open>tau\<close>; and for every convection sample of norm below \<open>eps\<close>
  the result is the zero vector, so that the result tends to zero with the convection.
\<close>

theorem tau_nonnegative:
  "(0 \<le> volume c \<and> 0 < p e \<and> 0 < sigma e \<longrightarrow> 0 \<le> supg_tau e c b)
   \<and> (1 / 100000 < Pe \<longrightarrow> xi Pe = 1 / tanh Pe - 1 / Pe \<and> 0 \<le> xi Pe)
   \<and> (0 < Pe \<and> Pe \<le> 1 / 100000
        \<longrightarrow> xi Pe = Pe / 3 - Pe * Pe * Pe / 45 + 2 / 945 * Pe * Pe * Pe * Pe * Pe \<and> 0 \<le> xi Pe)
   \<and> (supg_eval eps e c b = Returned r \<and> eps \<le> conv_norm b \<and> 0 < p e \<and> 0 < sigma e
        \<longrightarrow> r = (fst b * supg_tau e c b, snd b * supg_tau e c b) \<and> 0 \<le> supg_tau e c b)
   \<and> (0 < eps \<longrightarrow> (\<forall>b'. conv_norm b' < eps \<longrightarrow> supg_eval eps e c b' = Returned (0, 0)))"
proof (intro conjI impI allI)
  show "0 \<le> supg_tau e c b" if "0 \<le> volume c \<and> 0 < p e \<and> 0 < sigma e"
    using that by (simp add: supg_tau_nonneg')
  show "xi Pe = 1 / tanh Pe - 1 / Pe" if "1 / 100000 < Pe"
    using that by (simp add: xi_def)
  show "0 \<le> xi Pe" if "1 / 100000 < Pe"
    using that by (intro xi_nonneg) simp
  show "xi Pe = Pe / 3 - Pe * Pe * Pe / 45 + 2 / 945 * Pe * Pe * Pe * Pe * Pe"
    if "0 < Pe \<and> Pe \<le> 1 / 100000"
    using that by (simp add: xi_def)
  show "0 \<le> xi Pe" if "0 < Pe \<and> Pe \<le> 1 / 100000"
    using that by (intro xi_nonneg) simp
  show "r = (fst b * supg_tau e c b, snd b * supg_tau e c b)"
    if "supg_eval eps e c b = Returned r \<and> eps \<le> conv_norm b \<and> 0 < p e \<and> 0 < sigma e"
    using supg_eval_Returned [of eps e c b r] that by simp
  show "0 \<le> supg_tau e c b"
    if "supg_eval eps e c b = Returned r \<and> eps \<le> conv_norm b \<and> 0 < p e \<and> 0 < sigma e"
    using supg_eval_Returned [of eps e c b r] that by (simp add: supg_tau_nonneg)
  show "supg_eval eps e c b' = Returned (0, 0)" if "conv_norm b' < eps" for b'
    using that by (simp add: supg_eval_def)
qed

theorem tau_nonnegative_witness:
  "0 \<le> volume unit_triangle \<and> 0 < p stiff_stab \<and> 0 < sigma stiff_stab
   \<and> 0 \<le> supg_tau stiff_stab unit_triangle (1, 0)
   \<and> (1 / 100000 < (1::real)) \<and> 0 \<le> xi 1
   \<and> (0 < (1 / 100000 :: real)) \<and> 0 \<le> xi (1 / 100000)
   \<and> supg_eval DOLFIN_EPS stiff_stab unit_triangle (1, 0)
       = Returned (supg_tau stiff_stab unit_triangle (1, 0), 0)
   \<and> DOLFIN_EPS \<le> conv_norm (1, 0)
   \<and> 0 < DOLFIN_EPS \<and> conv_norm tiny_flow < DOLFIN_EPS
   \<and> supg_eval DOLFIN_EPS stiff_stab unit_triangle tiny_flow = Returned (0, 0)"
proof -
  have a: "0 \<le> volume unit_triangle \<and> 0 < p stiff_stab \<and> 0 < sigma stiff_stab"
    by (simp add: unit_triangle_def stiff_stab_def)
  have d: "DOLFIN_EPS \<le> conv_norm (1, 0)" by (simp add: norm_unit DOLFIN_EPS_def)
  have e: "0 < DOLFIN_EPS" by (simp add: DOLFIN_EPS_def)
  have f: "conv_norm tiny_flow < DOLFIN_EPS" by (simp add: norm_tiny DOLFIN_EPS_def)
  have g: "(1 / 100000 :: real) < 1" by simp
  have h: "0 < (1 / 100000 :: real) \<and> (1 / 100000 :: real) \<le> 1 / 100000" by simp
  note t1 = tau_nonnegative [of unit_triangle stiff_stab "(1, 0)" 1 DOLFIN_EPS
        "(supg_tau stiff_stab unit_triangle (1, 0), 0)"]
  note t2 = tau_nonnegative [of unit_triangle stiff_stab "(1, 0)" "1 / 100000" DOLFIN_EPS
        "(supg_tau stiff_stab unit_triangle (1, 0), 0)"]
  have c1: "0 \<le> supg_tau stiff_stab unit_triangle (1, 0)" using t1 a by blast
  have c2: "0 \<le> xi 1" using t1 g by blast
  have c3: "0 \<le> xi (1 / 100000)" using t2 h by blast
  have "\<forall>b'. conv_norm b' < DOLFIN_EPS
      \<longrightarrow> supg_eval DOLFIN_EPS stiff_stab unit_triangle b' = Returned (0, 0)"
    using t1 e by blast
  then have c4: "supg_eval DOLFIN_EPS stiff_stab unit_triangle tiny_flow = Returned (0, 0)"
    using f by blast
  show ?thesis using a c1 c2 c3 c4 d e f g supg_eval_stiff by simp
qed


section \<open>The fixed-point warm start: claims\<close>

text \<open>
  Claim C2.  The force of the Stokes solve is built from \<open>rho(theta0)\<close>, the temperature
  before the energy solve of the same pass, not from the candidate \<open>theta1\<close> that the
  energy solve has just produced.  With the identity as density, an energy solve that adds
  one and a Stokes solve that returns the force as velocity, the first pass from
  \<open>theta0 = 5\<close> computes the candidate 6 and the velocity 5; with the tolerance 2 this is
  also what the function returns.
\<close>

theorem stokes_force_uses_previous_temperature:
  "fp_pass growing_problem (fp_start 5)
     = (\<lparr>s_up0 = (5, 0), s_theta0 = 5, s_theta1 = 6\<rparr>, 1)
   \<and> solve_fixed_point growing_problem 0 0 5 2 = Some (5, 0, 5)"
proof -
  have a: "fp_pass growing_problem (fp_start 5)
     = (\<lparr>s_up0 = (5, 0), s_theta0 = 5, s_theta1 = 6\<rparr>, 1)"
    by (simp add: growing_pass fp_start_def)
  have "fp_loop growing_problem 2 (fp_start 5) = Some (fp_result growing_problem (fp_start 5))"
    by (subst fp_loop_unfold) (simp add: a)
  then have "solve_fixed_point growing_problem 0 0 5 2 = Some (5, 0, 5)"
    by (simp add: solve_fixed_point_eq fp_result_def a)
  with a show ?thesis by simp
qed

text \<open>
  Claim C6.  \<open>_solve_fixed_point\<close> never returns exactly when no pass computes a \<open>diff\<close>
  below the tolerance; it returns in pass \<open>n\<close> when that pass is the first whose \<open>diff\<close>
  is below the tolerance; and every return is of that kind.  There is no bound on the
  number of passes and no other way out of the loop.
\<close>

theorem fixed_point_loop_exit:
  fixes P :: "('u::zero, 'q::zero, 't::zero, 'r, 'f) problem"
  shows "(solve_fixed_point P u0 p0 theta0 tol = None
            \<longleftrightarrow> (\<forall>n. \<not> fp_diff P (fp_start theta0) n < tol))
   \<and> (fp_diff P (fp_start theta0) n < tol \<and> (\<forall>m<n. \<not> fp_diff P (fp_start theta0) m < tol)
        \<longrightarrow> solve_fixed_point P u0 p0 theta0 tol
              = Some (fp_result P (fp_iter P n (fp_start theta0))))
   \<and> (solve_fixed_point P u0 p0 theta0 tol = Some y
        \<longrightarrow> (\<exists>k. fp_diff P (fp_start theta0) k < tol
                 \<and> (\<forall>m<k. \<not> fp_diff P (fp_start theta0) m < tol)
                 \<and> y = fp_result P (fp_iter P k (fp_start theta0))))"
proof (intro conjI impI)
  show "solve_fixed_point P u0 p0 theta0 tol = None
          \<longleftrightarrow> (\<forall>n. \<not> fp_diff P (fp_start theta0) n < tol)"
    by (simp only: solve_fixed_point_eq fp_loop_None_iff)
  show "solve_fixed_point P u0 p0 theta0 tol = Some (fp_result P (fp_iter P n (fp_start theta0)))"
    if "fp_diff P (fp_start theta0) n < tol \<and> (\<forall>m<n. \<not> fp_diff P (fp_start theta0) m < tol)"
    unfolding solve_fixed_point_eq using that by (intro fp_loop_exits) simp_all
  show "\<exists>k. fp_diff P (fp_start theta0) k < tol
          \<and> (\<forall>m<k. \<not> fp_diff P (fp_start theta0) m < tol)
          \<and> y = fp_result P (fp_iter P k (fp_start theta0))"
    if "solve_fixed_point P u0 p0 theta0 tol = Some y"
    using that unfolding solve_fixed_point_eq by (rule fp_loop_Some_least)
qed

theorem fixed_point_loop_exit_witness:
  "(\<forall>n. \<not> fp_diff growing_problem (fp_start 5) n < 1 / 100)
   \<and> solve_fixed_point growing_problem 0 0 5 (1 / 100) = None
   \<and> fp_diff halving_problem (fp_start 1) (Suc 0) < 3 / 10
   \<and> \<not> fp_diff halving_problem (fp_start 1) 0 < 3 / 10
   \<and> solve_fixed_point halving_problem 0 0 1 (3 / 10) = Some (1 / 2, 0, 1 / 2)"
proof -
  have a: "\<forall>n. \<not> fp_diff growing_problem (fp_start 5) n < 1 / 100"
    by (simp add: growing_diff)
  have b: "fp_diff halving_problem (fp_start 1) (Suc 0) < 3 / 10"
    by (simp add: halving_diff_1)
  have c: "\<forall>m<Suc 0. \<not> fp_diff halving_problem (fp_start 1) m < 3 / 10"
    by (simp add: halving_diff_0)
  note t1 = fixed_point_loop_exit [of growing_problem 0 0 5 "1 / 100" 0 "(0, 0, 0)"]
  note t2 = fixed_point_loop_exit [of halving_problem 0 0 1 "3 / 10" "Suc 0" "(0, 0, 0)"]
  have d: "solve_fixed_point growing_problem 0 0 5 (1 / 100) = None"
    using t1 a by blast
  have "solve_fixed_point halving_problem 0 0 1 (3 / 10)
      = Some (fp_result halving_problem (fp_iter halving_problem (Suc 0) (fp_start 1)))"
    using t2 b c by blast
  then have e: "solve_fixed_point halving_problem 0 0 1 (3 / 10) = Some (1 / 2, 0, 1 / 2)"
    by (simp only: halving_result_1)
  have c0: "\<not> fp_diff halving_problem (fp_start 1) 0 < 3 / 10"
    by (simp add: halving_diff_0)
  show ?thesis using a b c0 d e by blast
qed

text \<open>
  Claim C9.  The result of \<open>_solve_fixed_point\<close> does not depend on the arguments \<open>u0\<close>
  and \<open>p0\<close>: the loop starts from a new mixed function, which is zero.  The first pass
  of the run solves the energy equation with the convection velocity zero, whatever
  \<open>u0\<close> is: the result of that solve is the candidate whose distance to \<open>theta0\<close> the first
  test compares with the tolerance, and the temperature of the second pass; the first
  Stokes solve starts from the zero mixed function.
\<close>

theorem fixed_point_ignores_initial_velocity:
  fixes P :: "('u::zero, 'q::zero, 't::zero, 'r, 'f) problem"
  shows "solve_fixed_point P u0 p0 theta0 tol = solve_fixed_point P u0' p0' theta0 tol
   \<and> solve_fixed_point P u0 p0 theta0 tol = fp_loop P tol (fp_start theta0)
   \<and> s_up0 (fp_start theta0 :: ('u, 'q, 't) fp_state) = (0, 0)
   \<and> s_theta1 (fst (fp_pass P (fp_start theta0))) = heat_solve P 0 (rho P theta0)
   \<and> solve_fixed_point P u0 p0 theta0 tol =
       (let th1 = heat_solve P 0 (rho P theta0);
            f = (case extra_force P of None \<Rightarrow> times_g P (rho P theta0)
                 | Some x \<Rightarrow> add_force P (times_g P (rho P theta0)) x);
            up1 = stokes_solve P (0, 0) f
        in if errornorm P theta0 th1 < tol then Some (fst up1, snd up1, theta0)
           else fp_loop P tol \<lparr>s_up0 = up1, s_theta0 = th1, s_theta1 = th1\<rparr>)"
proof (intro conjI)
  show "solve_fixed_point P u0 p0 theta0 tol = solve_fixed_point P u0' p0' theta0 tol"
    by (simp add: solve_fixed_point_eq)
  show "solve_fixed_point P u0 p0 theta0 tol = fp_loop P tol (fp_start theta0)"
    by (rule solve_fixed_point_eq)
  show "s_up0 (fp_start theta0 :: ('u, 'q, 't) fp_state) = (0, 0)"
    by (simp add: fp_start_def)
  show "s_theta1 (fst (fp_pass P (fp_start theta0))) = heat_solve P 0 (rho P theta0)"
    by (simp add: fp_pass_theta1) (simp add: fp_start_def)
  show "solve_fixed_point P u0 p0 theta0 tol =
       (let th1 = heat_solve P 0 (rho P theta0);
            f = (case extra_force P of None \<Rightarrow> times_g P (rho P theta0)
                 | Some x \<Rightarrow> add_force P (times_g P (rho P theta0)) x);
            up1 = stokes_solve P (0, 0) f
        in if errornorm P theta0 th1 < tol then Some (fst up1, snd up1, theta0)
           else fp_loop P tol \<lparr>s_up0 = up1, s_theta0 = th1, s_theta1 = th1\<rparr>)"
    unfolding solve_fixed_point_eq
    by (subst fp_loop.simps)
      (simp add: fp_pass_def fp_start_def Let_def split: option.split)
qed

theorem fixed_point_ignores_initial_velocity_witness:
  "solve_fixed_point growing_problem 7 9 5 2 = Some (5, 0, 5)
   \<and> solve_fixed_point growing_problem 7 9 5 2 = solve_fixed_point growing_problem 0 0 5 2
   \<and> heat_solve growing_problem 0 (rho growing_problem 5) = 6
   \<and> errornorm growing_problem 5 6 < 2"
proof -
  note t = fixed_point_ignores_initial_velocity [of growing_problem 7 9 5 2 0 0]
  have a: "heat_solve growing_problem 0 (rho growing_problem 5) = 6"
    by (simp add: growing_problem_def)
  have b: "errornorm growing_problem 5 6 < 2" by (simp add: growing_problem_def)
  have c: "extra_force growing_problem = None" by (simp add: growing_problem_def)
  have d: "stokes_solve growing_problem (0, 0) (times_g growing_problem (rho growing_problem 5))
      = (5, 0)"
    by (simp add: growing_problem_def)
  from t have "solve_fixed_point growing_problem 7 9 5 2 =
       (let th1 = heat_solve growing_problem 0 (rho growing_problem 5);
            f = (case extra_force growing_problem of
                   None \<Rightarrow> times_g growing_problem (rho growing_problem 5)
                 | Some x \<Rightarrow> add_force growing_problem
                     (times_g growing_problem (rho growing_problem 5)) x);
            up1 = stokes_solve growing_problem (0, 0) f
        in if errornorm growing_problem 5 th1 < 2 then Some (fst up1, snd up1, 5)
           else fp_loop growing_problem 2 \<lparr>s_up0 = up1, s_theta0 = th1, s_theta1 = th1\<rparr>)"
    by blast
  then have e: "solve_fixed_point growing_problem 7 9 5 2 = Some (5, 0, 5)"
    by (simp add: Let_def a b c d)
  from t have f: "solve_fixed_point growing_problem 7 9 5 2
      = solve_fixed_point growing_problem 0 0 5 2"
    by blast
  show ?thesis using a b e f by blast
qed

text \<open>
  Claim C10.  When pass \<open>n\<close> is the first whose \<open>diff\<close> is below the tolerance, the
  temperature returned is \<open>theta0\<close> as it is at the start of that pass, and its distance to
  the candidate \<open>theta1\<close> of that pass is below the tolerance; conversely every returned
  temperature is such a \<open>theta0\<close>.  That \<open>theta0\<close> is the argument \<open>theta0\<close> in pass 0 and
  the candidate of the pass before otherwise; the candidate of a pass is the output of
  its energy solve.
\<close>

theorem fixed_point_returns_previous_temperature:
  fixes P :: "('u::zero, 'q::zero, 't::zero, 'r, 'f) problem"
  shows "(fp_diff P (fp_start theta0) n < tol \<and> (\<forall>m<n. \<not> fp_diff P (fp_start theta0) m < tol)
      \<longrightarrow> (\<exists>u q. solve_fixed_point P u0 p0 theta0 tol
                    = Some (u, q, s_theta0 (fp_iter P n (fp_start theta0))))
        \<and> errornorm P (s_theta0 (fp_iter P n (fp_start theta0)))
             (s_theta1 (fst (fp_pass P (fp_iter P n (fp_start theta0))))) < tol)
   \<and> (solve_fixed_point P u0 p0 theta0 tol = Some (u, q, theta)
      \<longrightarrow> (\<exists>k. theta = s_theta0 (fp_iter P k (fp_start theta0))
             \<and> errornorm P theta (s_theta1 (fst (fp_pass P (fp_iter P k (fp_start theta0))))) < tol))
   \<and> s_theta0 (fp_iter P 0 (fp_start theta0)) = theta0
   \<and> s_theta0 (fp_iter P (Suc j) (fp_start theta0))
        = s_theta1 (fst (fp_pass P (fp_iter P j (fp_start theta0))))
   \<and> s_theta1 (fst (fp_pass P (fp_iter P j (fp_start theta0))))
        = heat_solve P (fst (s_up0 (fp_iter P j (fp_start theta0))))
            (rho P (s_theta0 (fp_iter P j (fp_start theta0))))"
proof (intro conjI impI)
  let ?s = "fp_start theta0 :: ('u, 'q, 't) fp_state"
  have dn: "fp_diff P ?s k = errornorm P (s_theta0 (fp_iter P k ?s))
      (s_theta1 (fst (fp_pass P (fp_iter P k ?s))))" for k
    by (simp add: fp_diff_def fp_pass_diff fp_pass_theta1)
  {
    assume h: "fp_diff P ?s n < tol \<and> (\<forall>m<n. \<not> fp_diff P ?s m < tol)"
    then have "fp_loop P tol ?s = Some (fp_result P (fp_iter P n ?s))"
      by (intro fp_loop_exits) simp_all
    moreover obtain u' q' th where r: "fp_result P (fp_iter P n ?s) = (u', q', th)"
      by (cases "fp_result P (fp_iter P n ?s)")
    moreover from r have "th = s_theta0 (fp_iter P n ?s)"
      using fp_result_theta [of P "fp_iter P n ?s"] by simp
    ultimately have "solve_fixed_point P u0 p0 theta0 tol
        = Some (u', q', s_theta0 (fp_iter P n ?s))"
      by (simp add: solve_fixed_point_eq)
    then show "\<exists>u q. solve_fixed_point P u0 p0 theta0 tol = Some (u, q, s_theta0 (fp_iter P n ?s))"
      by blast
    show "errornorm P (s_theta0 (fp_iter P n ?s)) (s_theta1 (fst (fp_pass P (fp_iter P n ?s)))) < tol"
      using h by (simp add: dn)
  }
  {
    assume "solve_fixed_point P u0 p0 theta0 tol = Some (u, q, theta)"
    then have "fp_loop P tol ?s = Some (u, q, theta)" by (simp add: solve_fixed_point_eq)
    from fp_loop_Some_least [OF this] obtain k where
      k: "fp_diff P ?s k < tol" and y: "(u, q, theta) = fp_result P (fp_iter P k ?s)" by blast
    from y have "theta = s_theta0 (fp_iter P k ?s)"
      using fp_result_theta [of P "fp_iter P k ?s"] by (metis snd_conv)
    with k show "\<exists>k. theta = s_theta0 (fp_iter P k ?s)
        \<and> errornorm P theta (s_theta1 (fst (fp_pass P (fp_iter P k ?s)))) < tol"
      by (auto simp add: dn)
  }
  show "s_theta0 (fp_iter P 0 ?s) = theta0" by (simp add: fp_iter_0 fp_start_def)
  show "s_theta0 (fp_iter P (Suc j) ?s) = s_theta1 (fst (fp_pass P (fp_iter P j ?s)))"
    by (simp add: fp_iter_step fp_next_def)
  show "s_theta1 (fst (fp_pass P (fp_iter P j ?s)))
        = heat_solve P (fst (s_up0 (fp_iter P j ?s))) (rho P (s_theta0 (fp_iter P j ?s)))"
    by (rule fp_pass_theta1)
qed

theorem fixed_point_returns_previous_temperature_witness:
  "fp_diff halving_problem (fp_start 1) (Suc 0) < 3 / 10
   \<and> \<not> fp_diff halving_problem (fp_start 1) 0 < 3 / 10
   \<and> solve_fixed_point halving_problem 0 0 1 (3 / 10) = Some (1 / 2, 0, 1 / 2)
   \<and> s_theta0 (fp_iter halving_problem (Suc 0) (fp_start 1)) = 1 / 2
   \<and> s_theta1 (fst (fp_pass halving_problem (fp_iter halving_problem (Suc 0) (fp_start 1)))) = 1 / 4
   \<and> errornorm halving_problem (1 / 2) (1 / 4) < 3 / 10"
proof -
  have b: "fp_diff halving_problem (fp_start 1) (Suc 0) < 3 / 10"
    by (simp add: halving_diff_1)
  have c: "\<forall>m<Suc 0. \<not> fp_diff halving_problem (fp_start 1) m < 3 / 10"
    by (simp add: halving_diff_0)
  have th0: "s_theta0 (fp_iter halving_problem (Suc 0) (fp_start 1)) = 1 / 2"
    by (simp add: halving_iter_1)
  have th1: "s_theta1 (fst (fp_pass halving_problem (fp_iter halving_problem (Suc 0) (fp_start 1)))) = 1 / 4"
    unfolding halving_iter_1 by (simp add: halving_pass)
  note t = fixed_point_returns_previous_temperature
    [of halving_problem 1 "Suc 0" "3 / 10" 0 0 "1 / 2" 0 "1 / 2" 0]
  from t b c obtain u q where
    r: "solve_fixed_point halving_problem 0 0 1 (3 / 10)
          = Some (u, q, s_theta0 (fp_iter halving_problem (Suc 0) (fp_start 1)))"
    and e: "errornorm halving_problem (s_theta0 (fp_iter halving_problem (Suc 0) (fp_start 1)))
             (s_theta1 (fst (fp_pass halving_problem (fp_iter halving_problem (Suc 0) (fp_start 1)))))
            < 3 / 10"
    by blast
  have "solve_fixed_point halving_problem 0 0 1 (3 / 10)
      = Some (fp_result halving_problem (fp_iter halving_problem (Suc 0) (fp_start 1)))"
    unfolding solve_fixed_point_eq using b c by (intro fp_loop_exits) simp_all
  then have s: "solve_fixed_point halving_problem 0 0 1 (3 / 10) = Some (1 / 2, 0, 1 / 2)"
    by (simp only: halving_result_1)
  from e have e': "errornorm halving_problem (1 / 2) (1 / 4) < 3 / 10"
    by (simp only: th0 th1)
  have c0: "\<not> fp_diff halving_problem (fp_start 1) 0 < 3 / 10"
    by (simp add: halving_diff_0)
  show ?thesis using b c0 s th0 th1 e' by blast
qed

end
